theory Spec2Isabelle
  imports Complex_Main "HOL-Library.Word" "HOL-Library.Log_Nat"
begin

section \<open>Go values: strings, machine integers\<close>

text \<open>
  A Go string is a sequence of bytes, here a \<^typ>\<open>string\<close> (one \<^typ>\<open>char\<close> per byte).
  Go's \<open>int\<close> is taken at its width on 64-bit platforms: a 64-bit two's complement
  word, read with \<^const>\<open>sint\<close>; \<open>+=\<close> wraps around.
\<close>

type_synonym go_int = "64 word"

abbreviation nl :: char where "nl \<equiv> CHR 0x0A"
abbreviation tab :: char where "tab \<equiv> CHR 0x09"

subsection \<open>Package strings\<close>

text \<open>\<open>strings.Split(s, sep)\<close> for a one-byte separator: the pieces between the
  separators, always at least one piece (\<open>Split("", sep)\<close> is one empty piece).\<close>

fun Split :: "char \<Rightarrow> string \<Rightarrow> string list" where
  "Split sep [] = [[]]"
| "Split sep (c # cs) =
     (if c = sep then [] # Split sep cs
      else (case Split sep cs of [] \<Rightarrow> [[c]] | l # ls \<Rightarrow> (c # l) # ls))"

text \<open>\<open>strings.SplitN(s, sep, n)\<close> for a one-byte separator and \<open>n \<ge> 0\<close>: at most
  \<open>n\<close> pieces, the last one the unsplit remainder; \<open>n = 0\<close> gives no piece.\<close>

fun SplitN :: "char \<Rightarrow> nat \<Rightarrow> string \<Rightarrow> string list" where
  "SplitN sep 0 s = []"
| "SplitN sep (Suc 0) s = [s]"
| "SplitN sep (Suc (Suc n)) s =
     (if sep \<in> set s
      then takeWhile (\<lambda>c. c \<noteq> sep) s # SplitN sep (Suc n) (tl (dropWhile (\<lambda>c. c \<noteq> sep) s))
      else [s])"

text \<open>\<open>strings.Join(elems, sep)\<close>.\<close>

fun Join :: "string \<Rightarrow> string list \<Rightarrow> string" where
  "Join sep [] = []"
| "Join sep [x] = x"
| "Join sep (x # y # ys) = x @ sep @ Join sep (y # ys)"

text \<open>\<open>strings.Trim(s, cutset)\<close> for a cutset of ASCII bytes: the leading and the
  trailing bytes of the cutset are removed.\<close>

definition Trim :: "string \<Rightarrow> string \<Rightarrow> string" where
  "Trim cutset s =
     rev (dropWhile (\<lambda>c. c \<in> set cutset) (rev (dropWhile (\<lambda>c. c \<in> set cutset) s)))"

text \<open>
  \<open>strings.Fields\<close> splits around runs of white space as \<open>unicode.IsSpace\<close> defines
  it and returns no empty field. The ASCII white space is tab, line feed, vertical tab,
  form feed, carriage return and space. The other white-space runes are looked for in
  their UTF-8 encoding: U+0085 and U+00A0 (C2 85, C2 A0), U+1680 (E1 9A 80),
  U+2000 to U+200A, U+2028, U+2029, U+202F (E2 80 followed by 80..8A, A8, A9, AF),
  U+205F (E2 81 9F) and U+3000 (E3 80 80). A lead byte never occurs inside another
  rune's encoding, so reading the bytes in order finds exactly the runes Go decodes.
  \<open>space_width s\<close> is the number of bytes of the white-space rune \<open>s\<close> starts with, and
  \<open>0\<close> when it starts with none.
\<close>

definition asciiSpace :: "char \<Rightarrow> bool" where
  "asciiSpace c = (c = CHR 0x09 \<or> c = CHR 0x0A \<or> c = CHR 0x0B \<or> c = CHR 0x0C
                   \<or> c = CHR 0x0D \<or> c = CHR 0x20)"

definition space_width :: "string \<Rightarrow> nat" where
  "space_width s =
     (case s of
        [] \<Rightarrow> 0
      | c # r \<Rightarrow>
          if asciiSpace c then 1
          else if c = CHR 0xC2 then
            (case r of d # _ \<Rightarrow> if d = CHR 0x85 \<or> d = CHR 0xA0 then 2 else 0 | [] \<Rightarrow> 0)
          else if c = CHR 0xE1 then
            (if take 2 r = [CHR 0x9A, CHR 0x80] then 3 else 0)
          else if c = CHR 0xE2 then
            (case r of
               d # e # _ \<Rightarrow>
                 if d = CHR 0x80 \<and>
                    (0x80 \<le> (of_char e :: nat) \<and> (of_char e :: nat) \<le> 0x8A \<or> e = CHR 0xA8 \<or> e = CHR 0xA9
                       \<or> e = CHR 0xAF)
                 then 3
                 else if d = CHR 0x81 \<and> e = CHR 0x9F then 3
                 else 0
             | _ \<Rightarrow> 0)
          else if c = CHR 0xE3 then
            (if take 2 r = [CHR 0x80, CHR 0x80] then 3 else 0)
          else 0)"

text \<open>The scan of \<open>Fields\<close>: \<open>k\<close> bytes of the current white-space rune are still to
  be skipped, \<open>cur\<close> is the field being read.\<close>

fun fields_scan :: "nat \<Rightarrow> string \<Rightarrow> string \<Rightarrow> string list" where
  "fields_scan k cur [] = (if cur = [] then [] else [cur])"
| "fields_scan (Suc k) cur (c # cs) = fields_scan k cur cs"
| "fields_scan 0 cur (c # cs) =
     (if 0 < space_width (c # cs)
      then (if cur = [] then [] else [cur]) @ fields_scan (space_width (c # cs) - 1) [] cs
      else fields_scan 0 (cur @ [c]) cs)"

definition Fields :: "string \<Rightarrow> string list" where
  "Fields s = fields_scan 0 [] s"

subsection \<open>Package strconv: Atoi\<close>

datatype num_error = ErrSyntax | ErrRange

definition isDigit :: "char \<Rightarrow> bool" where
  "isDigit c = (48 \<le> (of_char c :: nat) \<and> (of_char c :: nat) \<le> 57)"

text \<open>The value of a string of decimal digits.\<close>

definition digits_value :: "string \<Rightarrow> int" where
  "digits_value ds = foldl (\<lambda>n ch. n * 10 + (of_char ch - 48)) 0 ds"

text \<open>
  \<open>strconv.Atoi\<close>: an optional sign \<open>+\<close> or \<open>-\<close>, then one or more decimal digits.
  The result is the value and the error. On a syntax error the value is \<open>0\<close>; outside
  the range of \<open>int\<close> the value is the nearest bound and the error is a range error.
\<close>

definition Atoi :: "string \<Rightarrow> go_int \<times> num_error option" where
  "Atoi s =
     (let neg = (s \<noteq> [] \<and> hd s = CHR ''-'');
          ds = (if s \<noteq> [] \<and> (hd s = CHR ''-'' \<or> hd s = CHR ''+'') then tl s else s)
      in if ds = [] \<or> \<not> list_all isDigit ds then (0, Some ErrSyntax)
         else
           (let v = (if neg then - digits_value ds else digits_value ds)
            in if v > 2 ^ 63 - 1 then (word_of_int (2 ^ 63 - 1), Some ErrRange)
               else if v < - (2 ^ 63) then (word_of_int (- (2 ^ 63)), Some ErrRange)
               else (word_of_int v, None)))"

subsection \<open>The type float64\<close>

text \<open>
  A \<open>float64\<close> is a finite binary64 number, given by its rational value, an infinity or
  a NaN. The sign of zero is not kept: the program only multiplies, compares, rounds
  and converts floats to \<open>int\<close>, and none of these tells \<open>-0\<close> from \<open>+0\<close>.
\<close>

datatype float64 = Finite rat | PosInf | NegInf | NaN

text \<open>\<open>ilog2 x\<close> is the binary exponent of a positive rational: \<open>2 ^ ilog2 x \<le> x < 2 ^ (ilog2 x + 1)\<close>.
  It is read off the bit lengths of numerator and denominator.\<close>

definition ilog2 :: "rat \<Rightarrow> int" where
  "ilog2 x =
     (let p = fst (quotient_of x); q = snd (quotient_of x); d = bitlen p - bitlen q
      in if 2 powi d \<le> x then d else d - 1)"

text \<open>Rounding to the nearest integer, ties to the even one.\<close>

definition round_even :: "rat \<Rightarrow> int" where
  "round_even x =
     (let f = \<lfloor>x\<rfloor>; d = x - of_int f
      in if d < 1 / 2 then f
         else if 1 / 2 < d then f + 1
         else if even f then f else f + 1)"

text \<open>
  \<open>fl64 x\<close> is the binary64 number nearest to the rational \<open>x\<close> (IEEE 754 round to
  nearest, ties to even): 53 significant bits at the exponent of \<open>x\<close>, the exponent not
  below \<open>-1022\<close> (subnormal numbers), and an infinity when the rounded magnitude reaches
  \<open>2 ^ 1024\<close>.
\<close>

definition fl64 :: "rat \<Rightarrow> float64" where
  "fl64 x =
     (if x = 0 then Finite 0
      else
        (let e = max (ilog2 \<bar>x\<bar>) (- 1022);
             u = 2 powi (e - 52);
             y = of_int (round_even (x / u)) * u
         in if 1024 \<le> ilog2 \<bar>y\<bar> then (if 0 < x then PosInf else NegInf)
            else Finite y))"

text \<open>The product of two floats.\<close>

fun float_mul :: "float64 \<Rightarrow> float64 \<Rightarrow> float64" where
  "float_mul (Finite a) (Finite b) = fl64 (a * b)"
| "float_mul NaN y = NaN"
| "float_mul x NaN = NaN"
| "float_mul (Finite a) PosInf = (if a = 0 then NaN else if 0 < a then PosInf else NegInf)"
| "float_mul (Finite a) NegInf = (if a = 0 then NaN else if 0 < a then NegInf else PosInf)"
| "float_mul PosInf (Finite b) = (if b = 0 then NaN else if 0 < b then PosInf else NegInf)"
| "float_mul NegInf (Finite b) = (if b = 0 then NaN else if 0 < b then NegInf else PosInf)"
| "float_mul PosInf PosInf = PosInf"
| "float_mul PosInf NegInf = NegInf"
| "float_mul NegInf PosInf = NegInf"
| "float_mul NegInf NegInf = PosInf"

text \<open>The comparison \<open>x < y\<close> of two floats; every comparison with a NaN is false.\<close>

fun float_less :: "float64 \<Rightarrow> float64 \<Rightarrow> bool" where
  "float_less (Finite a) (Finite b) = (a < b)"
| "float_less NaN y = False"
| "float_less x NaN = False"
| "float_less NegInf NegInf = False"
| "float_less NegInf y = True"
| "float_less x NegInf = False"
| "float_less PosInf y = False"
| "float_less x PosInf = True"

text \<open>The conversion \<open>float64(n)\<close> of an \<open>int\<close>.\<close>

definition float64_of_int :: "go_int \<Rightarrow> float64" where
  "float64_of_int n = fl64 (of_int (sint n))"

text \<open>\<open>math.Round\<close>: the nearest integer, halfway cases away from zero; infinities and
  NaN are returned as they are.\<close>

definition round_away :: "rat \<Rightarrow> int" where
  "round_away q = (if q < 0 then - \<lfloor>- q + 1 / 2\<rfloor> else \<lfloor>q + 1 / 2\<rfloor>)"

fun math_Round :: "float64 \<Rightarrow> float64" where
  "math_Round (Finite q) = Finite (of_int (round_away q))"
| "math_Round x = x"

text \<open>
  The conversion \<open>int(x)\<close> of a float truncates towards zero. Go leaves the result to
  the implementation when the value does not fit (out of range, infinite or NaN); the
  result taken here is the one of amd64, the least \<open>int\<close>.
\<close>

definition trunc_zero :: "rat \<Rightarrow> int" where
  "trunc_zero q = (if q < 0 then - \<lfloor>- q\<rfloor> else \<lfloor>q\<rfloor>)"

fun int_of_float64 :: "float64 \<Rightarrow> go_int" where
  "int_of_float64 (Finite q) =
     (if - (2 ^ 63) \<le> trunc_zero q \<and> trunc_zero q < 2 ^ 63 then word_of_int (trunc_zero q)
      else word_of_int (- (2 ^ 63)))"
| "int_of_float64 x = word_of_int (- (2 ^ 63))"

subsection \<open>Package strconv: ParseFloat\<close>

text \<open>
  \<open>strconv.ParseFloat(s, 64)\<close> on the strings made of an optional sign, decimal digits
  and at most one point, with a digit on one side of it at least: the result is the
  float nearest to the decimal value, and a range error when that is an infinity.
  Every other string is a syntax error here. Go's \<open>ParseFloat\<close> also reads exponents,
  hexadecimal floats, underscores, \<open>Inf\<close> and \<open>NaN\<close>; the program never passes it such a
  string, the group it parses matches \<open>[0-9.]+\<close>.
\<close>

definition ParseFloat :: "string \<Rightarrow> num_error + float64" where
  "ParseFloat s =
     (let neg = (s \<noteq> [] \<and> hd s = CHR ''-'');
          body = (if s \<noteq> [] \<and> (hd s = CHR ''-'' \<or> hd s = CHR ''+'') then tl s else s);
          ip = takeWhile isDigit body;
          r = dropWhile isDigit body;
          point = (r \<noteq> [] \<and> hd r = CHR ''.'');
          fp = (if point then takeWhile isDigit (tl r) else []);
          rest = (if point then dropWhile isDigit (tl r) else r)
      in if rest \<noteq> [] \<or> (ip = [] \<and> fp = []) then Inl ErrSyntax
         else
           (let v = of_int (digits_value (ip @ fp)) / 10 ^ length fp
            in case fl64 (if neg then - v else v) of
                 Finite q \<Rightarrow> Inr (Finite q)
               | _ \<Rightarrow> Inl ErrRange))"

subsection \<open>Package regexp\<close>

text \<open>
  A compiled regular expression is given by its \<open>FindStringSubmatch\<close>: the leftmost
  match and its groups, the empty list (Go's \<open>nil\<close>) when nothing matches.
  \<open>MatchString\<close> holds when there is a match.
\<close>

type_synonym regexp = "string \<Rightarrow> string list"

definition MatchString :: "regexp \<Rightarrow> string \<Rightarrow> bool" where
  "MatchString re s = (re s \<noteq> [])"

text \<open>
  The patterns of the program are sequences of these items: a literal, exactly \<open>n\<close>
  bytes of a class, one or more or zero or more bytes of a class (greedy), the end of
  the text. \<open>match_items\<close> matches a sequence at the start of a string the way a
  backtracking matcher does, the longest repetition first; it returns what each item
  matched and the rest of the string.
\<close>

datatype item = Lit string | Rep nat "char \<Rightarrow> bool" | Plus "char \<Rightarrow> bool"
  | Star "char \<Rightarrow> bool" | End

fun try_lengths ::
  "(string \<Rightarrow> (string list \<times> string) option) \<Rightarrow> string \<Rightarrow> nat list \<Rightarrow> (string list \<times> string) option"
where
  "try_lengths k s [] = None"
| "try_lengths k s (n # ns) =
     (case k (drop n s) of
        Some (ms, r) \<Rightarrow> Some (take n s # ms, r)
      | None \<Rightarrow> try_lengths k s ns)"

fun match_items :: "item list \<Rightarrow> string \<Rightarrow> (string list \<times> string) option" where
  "match_items [] s = Some ([], s)"
| "match_items (Lit l # its) s =
     (if take (length l) s = l then try_lengths (match_items its) s [length l] else None)"
| "match_items (Rep n p # its) s =
     (if n \<le> length s \<and> list_all p (take n s) then try_lengths (match_items its) s [n]
      else None)"
| "match_items (Plus p # its) s =
     try_lengths (match_items its) s (rev [1 ..< Suc (length (takeWhile p s))])"
| "match_items (Star p # its) s =
     try_lengths (match_items its) s (rev [0 ..< Suc (length (takeWhile p s))])"
| "match_items (End # its) s =
     (if s = [] then try_lengths (match_items its) s [0] else None)"

text \<open>The leftmost match of an unanchored pattern.\<close>

fun search_items :: "item list \<Rightarrow> string \<Rightarrow> (string list \<times> string) option" where
  "search_items its [] = match_items its []"
| "search_items its (c # cs) =
     (case match_items its (c # cs) of
        Some m \<Rightarrow> Some m
      | None \<Rightarrow> search_items its cs)"

abbreviation quote :: char where "quote \<equiv> CHR 0x27"

definition isHexLower :: "char \<Rightarrow> bool" where
  "isHexLower c = (isDigit c \<or> (97 \<le> (of_char c :: nat) \<and> (of_char c :: nat) \<le> 102))"

text \<open>The class \<open>\s\<close> of Go's regexp: tab, line feed, form feed, carriage return, space.\<close>

definition isRegexSpace :: "char \<Rightarrow> bool" where
  "isRegexSpace c = (c = CHR 0x09 \<or> c = CHR 0x0A \<or> c = CHR 0x0C \<or> c = CHR 0x0D \<or> c = CHR 0x20)"

text \<open>\<open>aigPattern = `AIG:(\s*([0-9.]+))`\<close>; group 1 is the white space and the
  number, group 2 the number.\<close>

definition aigPattern :: "item list" where
  "aigPattern = [Lit ''AIG:'', Star isRegexSpace, Plus (\<lambda>c. isDigit c \<or> c = CHR ''.'')]"

definition aigRegex :: regexp where
  "aigRegex s =
     (case search_items aigPattern s of
        None \<Rightarrow> []
      | Some (ms, r) \<Rightarrow> [concat ms, ms ! 1 @ ms ! 2, ms ! 2])"

text \<open>\<open>fixPattern = `^[0-9a-f]{40} '[^']+' \d{4}-\d{2}-\d{2} \d{2}:\d{2}:\d{2} (fix)`\<close>,
  the same constant in both files; group 1 is \<open>fix\<close>.\<close>

definition timestamp_items :: "item list" where
  "timestamp_items =
     [Rep 4 isDigit, Lit ''-'', Rep 2 isDigit, Lit ''-'', Rep 2 isDigit, Lit '' '',
      Rep 2 isDigit, Lit '':'', Rep 2 isDigit, Lit '':'', Rep 2 isDigit]"

definition fixPattern :: "item list" where
  "fixPattern =
     [Rep 40 isHexLower, Lit [CHR '' '', quote], Plus (\<lambda>c. c \<noteq> quote), Lit [quote, CHR '' '']]
     @ timestamp_items @ [Lit '' '', Lit ''fix'']"

definition fixRegex :: regexp where
  "fixRegex s =
     (case match_items fixPattern s of
        None \<Rightarrow> []
      | Some (ms, r) \<Rightarrow> [concat ms, last ms])"

subsection \<open>Package path/filepath: Ext\<close>

text \<open>
  \<open>filepath.Ext(path)\<close> scans from the end: the suffix that starts at the last dot of
  the last path element, empty when that element has no dot. The path separator is
  \<open>/\<close> (Unix). \<open>ext_scan\<close> walks the reversed path; \<open>acc\<close> is what was walked over.
\<close>

fun ext_scan :: "string \<Rightarrow> string \<Rightarrow> string" where
  "ext_scan [] acc = []"
| "ext_scan (c # cs) acc =
     (if c = CHR ''/'' then []
      else if c = CHR ''.'' then c # acc
      else ext_scan cs (c # acc))"

definition Ext :: "string \<Rightarrow> string" where
  "Ext path = ext_scan (rev path) []"

section \<open>The file change classifier (main.go)\<close>

definition includeFileExts :: string where
  "includeFileExts = ''.html,.vue,.js,.ts,.tsx,.css,.scss,.cjs,.go,.php,.yaml,.proto''"

definition excludeFileExts :: string where
  "excludeFileExts = ''.pb.go,.pb.validate.go''"

text \<open>\<open>isFileChangeLine\<close>: the loop over \<open>parts[:2]\<close> returns false at the first field
  that is not \<open>-\<close> and that \<open>Atoi\<close> rejects.\<close>

fun fields_numeric :: "string list \<Rightarrow> bool" where
  "fields_numeric [] = True"
| "fields_numeric (field # rest) =
     (if field \<noteq> ''-'' then
        (if snd (Atoi field) \<noteq> None then False else fields_numeric rest)
      else fields_numeric rest)"

definition isFileChangeLine :: "string \<Rightarrow> bool" where
  "isFileChangeLine line =
     (let parts = Fields line
      in if length parts < 2 then False else fields_numeric (take 2 parts))"

text \<open>\<open>parseFileChange\<close>: the errors of \<open>Atoi\<close> are dropped, its value is kept.\<close>

definition parseFileChange :: "string \<Rightarrow> go_int \<times> go_int \<times> string" where
  "parseFileChange change =
     (let parts = Fields change
      in if length parts < 3 then (0, 0, [])
         else
           (let added = fst (Atoi (parts ! 0));
                deleted = fst (Atoi (parts ! 1));
                fileName = (if length parts > 3 then Join [] (drop 2 parts) else parts ! 2)
            in (added, deleted, fileName)))"

text \<open>\<open>isValidFile\<close>: the first loop returns false at a match in the deny-list, the
  second returns true at a match in the allow-list.\<close>

fun ext_in :: "string \<Rightarrow> string list \<Rightarrow> bool" where
  "ext_in ext [] = False"
| "ext_in ext (e # es) = (if ext = e then True else ext_in ext es)"

definition isValidFile :: "string \<Rightarrow> string list \<Rightarrow> string list \<Rightarrow> bool" where
  "isValidFile fileName includeExts excludeExts =
     (let ext = Ext fileName
      in if ext_in ext excludeExts then False
         else if ext_in ext includeExts then True
         else False)"

section \<open>The commit splitter (main.go)\<close>

text \<open>
  \<open>splitCommits\<close>: the loop over the lines carries \<open>commits\<close> and the builder
  \<open>currentCommit\<close>. An empty line is skipped. A line whose first field is 40 bytes long
  closes the chunk being built, when there is one. Then the line is appended to the
  builder, after a line feed when the builder is not empty.
\<close>

fun splitCommits_loop :: "string list \<Rightarrow> string list \<times> string \<Rightarrow> string list \<times> string" where
  "splitCommits_loop [] st = st"
| "splitCommits_loop (line # rest) (commits, currentCommit) =
     (if line = [] then splitCommits_loop rest (commits, currentCommit)
      else
        (let s = Fields line;
             closing = (length s > 0 \<and> length (hd s) = 40 \<and> length currentCommit > 0);
             commits1 = (if closing then commits @ [currentCommit] else commits);
             current1 = (if closing then [] else currentCommit);
             current2 = (if length current1 > 0 then current1 @ [nl] else current1)
         in splitCommits_loop rest (commits1, current2 @ line)))"

definition splitCommits :: "string \<Rightarrow> string list" where
  "splitCommits output =
     (let lines = Split nl output;
          st = splitCommits_loop lines ([], [])
      in if length (snd st) > 0 then fst st @ [snd st] else fst st)"

section \<open>The ratio extractor, the commit parser and the aggregator (main.go)\<close>

record CommitStats =
  AddedLines :: go_int
  DeletedLines :: go_int
  AIGRatio :: float64
  IsFix :: bool

record AuthorStats =
  Name :: string
  Email :: string
  TotalAddedLines :: go_int
  TotalDeletedLines :: go_int
  TotalAIAddedLines :: go_int
  TotalAIDeletedLines :: go_int
  FixCount :: go_int
  FixAndAIGCount :: go_int

text \<open>The zero value \<open>CommitStats{}\<close>.\<close>

definition CommitStats_zero :: CommitStats where
  "CommitStats_zero = \<lparr>AddedLines = 0, DeletedLines = 0, AIGRatio = Finite 0, IsFix = False\<rparr>"

definition extractAIGRatio :: "regexp \<Rightarrow> string \<Rightarrow> float64" where
  "extractAIGRatio re commit =
     (let matches = re commit
      in if length matches > 2 then
           (case ParseFloat (matches ! 2) of
              Inl err \<Rightarrow> Finite 0
            | Inr ratio \<Rightarrow> if float_less ratio (Finite 0) then Finite 0 else ratio)
         else Finite 0)"

text \<open>
  The first loop of \<open>processCommit\<close>, from line \<open>i\<close> on: empty lines are skipped, the
  first file change line ends the loop and gives \<open>fileChangeStartIdx\<close>, every other
  line is appended to \<open>messageLines\<close>. When the loop ends without a file change line
  the index keeps its initial value \<open>1\<close>.
\<close>

fun find_changes :: "string list \<Rightarrow> nat \<Rightarrow> string list \<Rightarrow> nat \<times> string list" where
  "find_changes [] i messageLines = (1, messageLines)"
| "find_changes (line # rest) i messageLines =
     (if line = [] then find_changes rest (Suc i) messageLines
      else if isFileChangeLine line then (i, messageLines)
      else find_changes rest (Suc i) (messageLines @ [line]))"

text \<open>The second loop of \<open>processCommit\<close>, over \<open>fileChanges\<close>.\<close>

fun add_changes :: "string list \<Rightarrow> string list \<Rightarrow> string list \<Rightarrow> CommitStats \<Rightarrow> CommitStats" where
  "add_changes [] includeExts excludeExts stats = stats"
| "add_changes (change # rest) includeExts excludeExts stats =
     (if change = [] then add_changes rest includeExts excludeExts stats
      else
        (case parseFileChange change of
           (added, deleted, fileName) \<Rightarrow>
             if \<not> isValidFile fileName includeExts excludeExts
             then add_changes rest includeExts excludeExts stats
             else add_changes rest includeExts excludeExts
                    (stats\<lparr>AddedLines := AddedLines stats + added,
                           DeletedLines := DeletedLines stats + deleted\<rparr>)))"

text \<open>\<open>processCommit\<close> of main.go; what it prints is left out. The identity line is cut
  at its first four spaces.\<close>

definition processCommit ::
  "string \<Rightarrow> regexp \<Rightarrow> regexp \<Rightarrow> string list \<Rightarrow> string list \<Rightarrow> CommitStats \<times> string \<times> string"
where
  "processCommit commit aigRe fixRe includeExts excludeExts =
     (let lines = Split nl commit
      in if length lines = 0 then (CommitStats_zero, [], [])
         else
           (let firstLine = lines ! 0;
                parts = SplitN CHR '' '' 5 firstLine
            in if length parts < 5 then (CommitStats_zero, [], [])
               else
                 (let author = Trim [quote] (parts ! 1);
                      email = parts ! 2;
                      message = parts ! 4;
                      found = find_changes (drop 1 lines) 1 [message];
                      fileChangeStartIdx = fst found;
                      fullMessage = Join [nl] (snd found);
                      stats = \<lparr>AddedLines = 0, DeletedLines = 0,
                               AIGRatio = extractAIGRatio aigRe fullMessage,
                               IsFix = MatchString fixRe firstLine\<rparr>;
                      fileChanges = drop fileChangeStartIdx lines
                  in (add_changes fileChanges includeExts excludeExts stats, author, email))))"

text \<open>The AI share of a line count: \<open>int(math.Round(float64(n) * ratio))\<close>.\<close>

definition aiLines :: "go_int \<Rightarrow> float64 \<Rightarrow> go_int" where
  "aiLines n ratio = int_of_float64 (math_Round (float_mul (float64_of_int n) ratio))"

text \<open>\<open>updateAuthorStats\<close>: the map is keyed by the email; the updated map is returned.\<close>

definition updateAuthorStats ::
  "(string \<rightharpoonup> AuthorStats) \<Rightarrow> string \<Rightarrow> string \<Rightarrow> CommitStats \<Rightarrow> (string \<rightharpoonup> AuthorStats)"
where
  "updateAuthorStats authorStats author email commitStats =
     (let stats = (case authorStats email of
                     None \<Rightarrow> \<lparr>Name = author, Email = email, TotalAddedLines = 0,
                               TotalDeletedLines = 0, TotalAIAddedLines = 0,
                               TotalAIDeletedLines = 0, FixCount = 0, FixAndAIGCount = 0\<rparr>
                   | Some st \<Rightarrow> st);
          aiAddedLines = aiLines (AddedLines commitStats) (AIGRatio commitStats);
          aiDeletedLines = aiLines (DeletedLines commitStats) (AIGRatio commitStats);
          stats1 = stats\<lparr>TotalAddedLines := TotalAddedLines stats + AddedLines commitStats,
                         TotalDeletedLines := TotalDeletedLines stats + DeletedLines commitStats,
                         TotalAIAddedLines := TotalAIAddedLines stats + aiAddedLines,
                         TotalAIDeletedLines := TotalAIDeletedLines stats + aiDeletedLines\<rparr>;
          stats2 = (if IsFix commitStats then
                      stats1\<lparr>FixCount := FixCount stats1 + 1,
                             FixAndAIGCount :=
                               (if float_less (Finite 0) (AIGRatio commitStats)
                                then FixAndAIGCount stats1 + 1 else FixAndAIGCount stats1)\<rparr>
                    else stats1)
      in authorStats(email \<mapsto> stats2))"

text \<open>\<open>analyzeCommits\<close>: the loop over the chunks skips the empty ones and folds every
  other one into the map, whatever \<open>processCommit\<close> returned for it.\<close>

fun analyzeCommits_loop ::
  "string list \<Rightarrow> (string \<rightharpoonup> AuthorStats) \<Rightarrow> (string \<rightharpoonup> AuthorStats)"
where
  "analyzeCommits_loop [] authorStats = authorStats"
| "analyzeCommits_loop (commit # rest) authorStats =
     (if commit = [] then analyzeCommits_loop rest authorStats
      else
        (case processCommit commit aigRegex fixRegex
                (Split CHR '','' includeFileExts) (Split CHR '','' excludeFileExts) of
           (commitStats, author, email) \<Rightarrow>
             analyzeCommits_loop rest (updateAuthorStats authorStats author email commitStats)))"

definition analyzeCommits :: "string list \<Rightarrow> (string \<rightharpoonup> AuthorStats)" where
  "analyzeCommits commits = analyzeCommits_loop commits Map.empty"

section \<open>The default date range (both files)\<close>

text \<open>
  \<open>time.Now()\<close> is a parameter: the year, month and day of the current date in the
  local zone. A date is normalised as \<open>time.Date\<close> does for the values that occur: any
  month number, and the days 1, 15, 16 and 0 (the day before the first).
\<close>

record civil =
  year :: int
  month :: int
  day :: int

definition isLeap :: "int \<Rightarrow> bool" where
  "isLeap y = (y mod 4 = 0 \<and> (y mod 100 \<noteq> 0 \<or> y mod 400 = 0))"

definition daysIn :: "int \<Rightarrow> int \<Rightarrow> int" where
  "daysIn y m =
     (if m = 2 then (if isLeap y then 29 else 28)
      else if m = 4 \<or> m = 6 \<or> m = 9 \<or> m = 11 then 30
      else 31)"

definition time_Date :: "int \<Rightarrow> int \<Rightarrow> int \<Rightarrow> civil" where
  "time_Date y m d =
     (let y1 = y + (m - 1) div 12; m1 = (m - 1) mod 12 + 1
      in if 1 \<le> d then \<lparr>year = y1, month = m1, day = d\<rparr>
         else
           (let y2 = y1 + (m1 - 2) div 12; m2 = (m1 - 2) mod 12 + 1
            in \<lparr>year = y2, month = m2, day = daysIn y2 m2 + d\<rparr>))"

definition AddDate :: "civil \<Rightarrow> int \<Rightarrow> int \<Rightarrow> int \<Rightarrow> civil" where
  "AddDate t years months days = time_Date (year t + years) (month t + months) (day t + days)"

text \<open>The decimal digits of a natural number, and \<open>Format("2006-01-02")\<close> for a year
  that is not negative: the year on four digits at least, month and day on two.\<close>

fun decimal :: "nat \<Rightarrow> string" where
  "decimal n =
     (if n < 10 then [char_of (48 + n)] else decimal (n div 10) @ [char_of (48 + n mod 10)])"

definition pad :: "nat \<Rightarrow> string \<Rightarrow> string" where
  "pad w s = replicate (w - length s) CHR ''0'' @ s"

definition Format :: "civil \<Rightarrow> string" where
  "Format t =
     pad 4 (decimal (nat (year t))) @ ''-'' @ pad 2 (decimal (nat (month t))) @ ''-''
       @ pad 2 (decimal (nat (day t)))"

definition getDefaultDateRange :: "civil \<Rightarrow> string \<Rightarrow> string \<Rightarrow> string \<times> string" where
  "getDefaultDateRange now since until =
     (if since \<noteq> [] \<and> until \<noteq> [] then (since, until)
      else
        (if day now \<le> 15 then
           (let firstOfThisMonth = time_Date (year now) (month now) 1;
                lastMonth = AddDate firstOfThisMonth 0 (- 1) 0;
                periodStart = time_Date (year lastMonth) (month lastMonth) 16;
                firstOfNextMonth = time_Date (year lastMonth) (month lastMonth + 1) 1;
                periodEnd = AddDate firstOfNextMonth 0 0 (- 1)
            in (Format periodStart, Format periodEnd))
         else
           (let periodStart = time_Date (year now) (month now) 1;
                periodEnd = time_Date (year now) (month now) 15
            in (Format periodStart, Format periodEnd))))"

section \<open>The variant with one total (part\_000)\<close>

text \<open>
  The second file has no author buckets: its identity line has no email and is read
  with \<open>commitPattern\<close>, and its statistics are one map from names to totals. Its
  functions carry the suffix \<open>_p0\<close>. The five functions below are written from its own
  text.
\<close>

fun splitCommits_loop_p0 :: "string list \<Rightarrow> string list \<times> string \<Rightarrow> string list \<times> string" where
  "splitCommits_loop_p0 [] st = st"
| "splitCommits_loop_p0 (line # rest) (commits, currentCommit) =
     (if line = [] then splitCommits_loop_p0 rest (commits, currentCommit)
      else
        (let s = Fields line;
             closing = (length s > 0 \<and> length (hd s) = 40 \<and> length currentCommit > 0);
             commits1 = (if closing then commits @ [currentCommit] else commits);
             current1 = (if closing then [] else currentCommit);
             current2 = (if length current1 > 0 then current1 @ [nl] else current1)
         in splitCommits_loop_p0 rest (commits1, current2 @ line)))"

definition splitCommits_p0 :: "string \<Rightarrow> string list" where
  "splitCommits_p0 output =
     (let lines = Split nl output;
          st = splitCommits_loop_p0 lines ([], [])
      in if length (snd st) > 0 then fst st @ [snd st] else fst st)"

fun fields_numeric_p0 :: "string list \<Rightarrow> bool" where
  "fields_numeric_p0 [] = True"
| "fields_numeric_p0 (field # rest) =
     (if field \<noteq> ''-'' then
        (if snd (Atoi field) \<noteq> None then False else fields_numeric_p0 rest)
      else fields_numeric_p0 rest)"

definition isFileChangeLine_p0 :: "string \<Rightarrow> bool" where
  "isFileChangeLine_p0 line =
     (let parts = Fields line
      in if length parts < 2 then False else fields_numeric_p0 (take 2 parts))"

definition parseFileChange_p0 :: "string \<Rightarrow> go_int \<times> go_int \<times> string" where
  "parseFileChange_p0 change =
     (let parts = Fields change
      in if length parts < 3 then (0, 0, [])
         else
           (let added = fst (Atoi (parts ! 0));
                deleted = fst (Atoi (parts ! 1));
                fileName = (if length parts > 3 then Join [] (drop 2 parts) else parts ! 2)
            in (added, deleted, fileName)))"

fun ext_in_p0 :: "string \<Rightarrow> string list \<Rightarrow> bool" where
  "ext_in_p0 ext [] = False"
| "ext_in_p0 ext (e # es) = (if ext = e then True else ext_in_p0 ext es)"

definition isValidFile_p0 :: "string \<Rightarrow> string list \<Rightarrow> string list \<Rightarrow> bool" where
  "isValidFile_p0 fileName includeExts excludeExts =
     (let ext = Ext fileName
      in if ext_in_p0 ext excludeExts then False
         else if ext_in_p0 ext includeExts then True
         else False)"

definition extractAIGRatio_p0 :: "regexp \<Rightarrow> string \<Rightarrow> float64" where
  "extractAIGRatio_p0 re commit =
     (let matches = re commit
      in if length matches > 2 then
           (case ParseFloat (matches ! 2) of
              Inl err \<Rightarrow> Finite 0
            | Inr ratio \<Rightarrow> if float_less ratio (Finite 0) then Finite 0 else ratio)
         else Finite 0)"

text \<open>\<open>commitPattern = `^([0-9a-f]{40}) '([^']+)' (\d{4}-\d{2}-\d{2} \d{2}:\d{2}:\d{2}) (.+)$`\<close>
  of part\_000; the groups are the id, the author, the time and the message head.\<close>

definition commitPattern_p0 :: "item list" where
  "commitPattern_p0 =
     [Rep 40 isHexLower, Lit [CHR '' '', quote], Plus (\<lambda>c. c \<noteq> quote), Lit [quote, CHR '' '']]
     @ timestamp_items @ [Lit '' '', Plus (\<lambda>c. c \<noteq> nl), End]"

definition commitRegex_p0 :: regexp where
  "commitRegex_p0 s =
     (case match_items commitPattern_p0 s of
        None \<Rightarrow> []
      | Some (ms, r) \<Rightarrow>
          [concat ms, ms ! 0, ms ! 2, concat (take 11 (drop 4 ms)), ms ! 16])"

fun find_changes_p0 :: "string list \<Rightarrow> nat \<Rightarrow> string list \<Rightarrow> nat \<times> string list" where
  "find_changes_p0 [] i messageLines = (1, messageLines)"
| "find_changes_p0 (line # rest) i messageLines =
     (if line = [] then find_changes_p0 rest (Suc i) messageLines
      else if isFileChangeLine_p0 line then (i, messageLines)
      else find_changes_p0 rest (Suc i) (messageLines @ [line]))"

fun add_changes_p0 :: "string list \<Rightarrow> string list \<Rightarrow> string list \<Rightarrow> CommitStats \<Rightarrow> CommitStats" where
  "add_changes_p0 [] includeExts excludeExts stats = stats"
| "add_changes_p0 (change # rest) includeExts excludeExts stats =
     (if change = [] then add_changes_p0 rest includeExts excludeExts stats
      else
        (case parseFileChange_p0 change of
           (added, deleted, fileName) \<Rightarrow>
             if \<not> isValidFile_p0 fileName includeExts excludeExts
             then add_changes_p0 rest includeExts excludeExts stats
             else add_changes_p0 rest includeExts excludeExts
                    (stats\<lparr>AddedLines := AddedLines stats + added,
                           DeletedLines := DeletedLines stats + deleted\<rparr>)))"

definition processCommit_p0 ::
  "string \<Rightarrow> regexp \<Rightarrow> regexp \<Rightarrow> string list \<Rightarrow> string list \<Rightarrow> CommitStats"
where
  "processCommit_p0 commit aigRe fixRe includeExts excludeExts =
     (let lines = Split nl commit
      in if length lines = 0 then CommitStats_zero
         else
           (let firstLine = lines ! 0;
                matches = commitRegex_p0 firstLine
            in if length matches < 5 then CommitStats_zero
               else
                 (let found = find_changes_p0 (drop 1 lines) 1 [matches ! 4];
                      fileChangeStartIdx = fst found;
                      message = Join [nl] (snd found);
                      fileChanges = drop fileChangeStartIdx lines;
                      stats = \<lparr>AddedLines = 0, DeletedLines = 0,
                               AIGRatio = extractAIGRatio_p0 aigRe message,
                               IsFix = MatchString fixRe firstLine\<rparr>
                  in add_changes_p0 fileChanges includeExts excludeExts stats)))"

section \<open>Predicates of the specification\<close>

text \<open>The spec's reading of a file change field: the marker \<open>-\<close> or a string that
  parses as a non-negative integer.\<close>

definition spec_change_field :: "string \<Rightarrow> bool" where
  "spec_change_field f =
     (f = ''-'' \<or> (snd (Atoi f) = None \<and> 0 \<le> sint (fst (Atoi f))))"

text \<open>What \<open>Atoi\<close> accepts, said without \<open>Atoi\<close>: an optional sign, then one or more
  decimal digits, the signed value within the range of a 64-bit \<open>int\<close>.\<close>

definition literal_digits :: "string \<Rightarrow> string" where
  "literal_digits f =
     (if f \<noteq> [] \<and> (hd f = CHR ''-'' \<or> hd f = CHR ''+'') then tl f else f)"

definition literal_value :: "string \<Rightarrow> int" where
  "literal_value f =
     (if f \<noteq> [] \<and> hd f = CHR ''-'' then - digits_value (literal_digits f)
      else digits_value (literal_digits f))"

definition int_literal :: "string \<Rightarrow> bool" where
  "int_literal f =
     (literal_digits f \<noteq> [] \<and> list_all isDigit (literal_digits f)
      \<and> - (2 ^ 63) \<le> literal_value f \<and> literal_value f < 2 ^ 63)"

text \<open>The spec's commit marker: a line whose first white-space delimited token is
  exactly 40 characters long and hexadecimal.\<close>

definition isHex :: "char \<Rightarrow> bool" where
  "isHex c = (isDigit c \<or> (97 \<le> (of_char c :: nat) \<and> (of_char c :: nat) \<le> 102)
              \<or> (65 \<le> (of_char c :: nat) \<and> (of_char c :: nat) \<le> 70))"

definition spec_marker_line :: "string \<Rightarrow> bool" where
  "spec_marker_line line =
     (Fields line \<noteq> [] \<and> length (hd (Fields line)) = 40 \<and> list_all isHex (hd (Fields line)))"

text \<open>The test the code makes: the first field is 40 bytes long.\<close>

definition code_marker_line :: "string \<Rightarrow> bool" where
  "code_marker_line line = (Fields line \<noteq> [] \<and> length (hd (Fields line)) = 40)"

section \<open>Inputs of the scenarios\<close>

text \<open>The two lists \<open>analyzeCommits\<close> passes on: \<open>strings.Split\<close> of the two constants.\<close>

definition configured_includeExts :: "string list" where
  "configured_includeExts = Split CHR '','' includeFileExts"

definition configured_excludeExts :: "string list" where
  "configured_excludeExts = Split CHR '','' excludeFileExts"

text \<open>The chunk of the spec's end-to-end scenario: no email, message head \<open>Fix bug AIG: 0.5\<close>,
  one file change line.\<close>

definition scenario_chunk :: string where
  "scenario_chunk =
     ''aaaaaaaaaaaaaaaaaaaaaaaaaaaaaaaaaaaaaaaa '' @ [quote] @ ''Alice'' @ [quote]
     @ '' 2024-01-01 10:00:00 Fix bug AIG: 0.5'' @ [nl]
     @ ''10'' @ [tab] @ ''2'' @ [tab] @ ''main.go''"

text \<open>The same chunk with the message head \<open>fix bug AIG: 0.5\<close>.\<close>

definition scenario_chunk_lower :: string where
  "scenario_chunk_lower =
     ''aaaaaaaaaaaaaaaaaaaaaaaaaaaaaaaaaaaaaaaa '' @ [quote] @ ''Alice'' @ [quote]
     @ '' 2024-01-01 10:00:00 fix bug AIG: 0.5'' @ [nl]
     @ ''10'' @ [tab] @ ''2'' @ [tab] @ ''main.go''"

text \<open>A chunk as main.go's own log format \<open>%H '%an' %ae %ad %s %b\<close> prints it, with the
  author's email before the time.\<close>

definition email_chunk :: string where
  "email_chunk =
     ''aaaaaaaaaaaaaaaaaaaaaaaaaaaaaaaaaaaaaaaa '' @ [quote] @ ''Alice'' @ [quote]
     @ '' alice@example.com 2024-01-01 10:00:00 fix bug AIG: 0.5'' @ [nl]
     @ ''10'' @ [tab] @ ''2'' @ [tab] @ ''main.go''"

text \<open>A chunk in main.go's format whose file change line has a negative added count.\<close>

definition negative_chunk :: string where
  "negative_chunk =
     ''aaaaaaaaaaaaaaaaaaaaaaaaaaaaaaaaaaaaaaaa '' @ [quote] @ ''Alice'' @ [quote]
     @ '' alice@example.com 2024-01-01 10:00:00 cleanup AIG: 0.5'' @ [nl]
     @ ''-5'' @ [tab] @ ''0'' @ [tab] @ ''a.go''"

section \<open>Properties\<close>

subsection \<open>Helper lemmas\<close>

lemma Join_Cons: "Join sep (x # xs) = x @ (if xs = [] then [] else sep @ Join sep xs)"
  by (cases xs) auto

lemma Join_nonempty: "xs \<noteq> [] \<Longrightarrow> [] \<notin> set xs \<Longrightarrow> Join sep xs \<noteq> []"
  by (cases xs) (auto simp: Join_Cons)

lemma take_two: "2 \<le> length xs \<Longrightarrow> take 2 xs = [xs ! 0, xs ! 1]"
  by (cases xs; cases "tl xs") auto

lemma fields_numeric_two:
  "fields_numeric [a, b] \<longleftrightarrow>
     (a = ''-'' \<or> snd (Atoi a) = None) \<and> (b = ''-'' \<or> snd (Atoi b) = None)"
  by auto

lemma Atoi_ok_iff: "snd (Atoi f) = None \<longleftrightarrow> int_literal f"
  by (auto simp: Atoi_def int_literal_def literal_digits_def literal_value_def Let_def)

lemma splitCommits_loop_blank:
  "\<forall>l\<in>set ls. l = [] \<Longrightarrow> splitCommits_loop ls (commits, cur) = (commits, cur)"
  by (induction ls) auto

lemma splitCommits_loop_no_marker:
  "\<forall>l\<in>set ls. \<not> code_marker_line l \<Longrightarrow>
   splitCommits_loop ls (commits, cur) =
     (commits, Join [nl] ((if cur = [] then [] else [cur]) @ filter (\<lambda>l. l \<noteq> []) ls))"
proof (induction ls arbitrary: cur)
  case Nil
  then show ?case by simp
next
  case (Cons line rest)
  show ?case
  proof (cases "line = []")
    case True
    with Cons show ?thesis by simp
  next
    case False
    from Cons.prems have nm: "\<not> (Fields line \<noteq> [] \<and> length (hd (Fields line)) = 40)"
      by (simp add: code_marker_line_def)
    from Cons.prems have rest: "\<forall>l\<in>set rest. \<not> code_marker_line l" by simp
    have step: "splitCommits_loop (line # rest) (commits, cur) =
          splitCommits_loop rest (commits, (if cur = [] then [] else cur @ [nl]) @ line)"
      using False nm by (auto simp: Let_def)
    show ?thesis
      unfolding step Cons.IH[OF rest] using False
      by (simp add: Join_Cons)
  qed
qed

lemma splitCommits_loop_nonempty:
  "[] \<notin> set (fst st) \<Longrightarrow> [] \<notin> set (fst (splitCommits_loop ls st))"
proof (induction ls arbitrary: st)
  case Nil
  then show ?case by simp
next
  case (Cons line rest)
  obtain commits cur where st: "st = (commits, cur)" by (cases st)
  show ?case
    unfolding st using Cons.prems
    by (auto simp: Let_def st intro!: Cons.IH)
qed

subsection \<open>Rounding to float64 below \<open>2 ^ 53\<close>\<close>

lemma ilog2_lower:
  assumes "0 < x"
  shows "2 powi (ilog2 x) \<le> x"
proof -
  obtain p q where pq: "quotient_of x = (p, q)" by (cases "quotient_of x")
  have q: "0 < q" using quotient_of_denom_pos[OF pq] .
  have x: "x = of_int p / of_int q" using quotient_of_div[OF pq] .
  from assms x q have p: "0 < p"
    by (simp add: zero_less_divide_iff)
  let ?d = "bitlen p - bitlen q"
  have bp: "2 ^ nat (bitlen p - 1) \<le> p" using bitlen_bounds[OF p] by simp
  have bq: "q < 2 ^ nat (bitlen q)" using bitlen_bounds[OF q] by simp
  have bp1: "1 \<le> bitlen p" using p by (simp add: bitlen_alt_def)
  have bq0: "0 \<le> bitlen q" by (rule bitlen_nonneg)
  have "?d - 1 = (bitlen p - 1) - bitlen q" by simp
  then have "(2::rat) powi (?d - 1) = 2 powi (bitlen p - 1) / 2 powi (bitlen q)"
    by (simp only: power_int_diff[of "2::rat" "bitlen p - 1" "bitlen q", simplified])
  also have "\<dots> = 2 ^ nat (bitlen p - 1) / 2 ^ nat (bitlen q)"
    using bp1 bq0 by (simp add: power_int_def)
  also have "\<dots> \<le> of_int p / of_int q"
  proof (rule frac_le)
    show "(0::rat) \<le> of_int p" using p by simp
    have "(of_int (2 ^ nat (bitlen p - 1)) :: rat) \<le> of_int p" using bp by (simp only: of_int_le_iff)
    then show "(2::rat) ^ nat (bitlen p - 1) \<le> of_int p" by simp
    show "(0::rat) < of_int q" using q by simp
    have "(of_int q :: rat) < of_int (2 ^ nat (bitlen q))" using bq by (simp only: of_int_less_iff)
    then show "(of_int q :: rat) \<le> 2 ^ nat (bitlen q)" by simp
  qed
  finally have low: "(2::rat) powi (?d - 1) \<le> x" using x by simp
  show ?thesis
    using low by (simp add: ilog2_def pq Let_def)
qed

lemma ilog2_upper:
  assumes "0 < x"
  shows "x < 2 powi (ilog2 x + 1)"
proof -
  obtain p q where pq: "quotient_of x = (p, q)" by (cases "quotient_of x")
  have q: "0 < q" using quotient_of_denom_pos[OF pq] .
  have x: "x = of_int p / of_int q" using quotient_of_div[OF pq] .
  from assms x q have p: "0 < p"
    by (simp add: zero_less_divide_iff)
  let ?d = "bitlen p - bitlen q"
  have bp: "p < 2 ^ nat (bitlen p)" using bitlen_bounds[OF p] by simp
  have bq: "2 ^ nat (bitlen q - 1) \<le> q" using bitlen_bounds[OF q] by simp
  have bp0: "0 \<le> bitlen p" by (rule bitlen_nonneg)
  have bq1: "1 \<le> bitlen q" using q by (simp add: bitlen_alt_def)
  have "of_int p / of_int q < (2::rat) ^ nat (bitlen p) / 2 ^ nat (bitlen q - 1)"
  proof (rule frac_less)
    show "(0::rat) \<le> of_int p" using p by simp
    have "(of_int p :: rat) < of_int (2 ^ nat (bitlen p))" using bp by (simp only: of_int_less_iff)
    then show "(of_int p :: rat) < 2 ^ nat (bitlen p)" by simp
    show "(0::rat) < 2 ^ nat (bitlen q - 1)" by simp
    have "(of_int (2 ^ nat (bitlen q - 1)) :: rat) \<le> of_int q" using bq by (simp only: of_int_le_iff)
    then show "(2::rat) ^ nat (bitlen q - 1) \<le> of_int q" by simp
  qed
  also have "\<dots> = 2 powi (bitlen p) / 2 powi (bitlen q - 1)"
    using bp0 bq1 by (simp add: power_int_def)
  also have "\<dots> = 2 powi (bitlen p - (bitlen q - 1))"
    by (simp only: power_int_diff[of "2::rat" "bitlen p" "bitlen q - 1", simplified])
  also have "bitlen p - (bitlen q - 1) = ?d + 1" by simp
  finally have up: "x < 2 powi (?d + 1)" using x by simp
  show ?thesis
  proof (cases "2 powi ?d \<le> x")
    case True
    with up show ?thesis by (simp add: ilog2_def pq Let_def)
  next
    case False
    then show ?thesis by (simp add: ilog2_def pq Let_def)
  qed
qed

text \<open>Two roundings: \<open>0.1\<close> is not a binary fraction, and above \<open>2 ^ 53\<close> odd integers
  are rounded to even ones, up or down.\<close>

lemma fl64_one_tenth: "fl64 (1 / 10) = Finite (3602879701896397 / 2 ^ 55)"
  by code_simp

lemma fl64_ties_to_even:
  "fl64 (2 ^ 53 + 1) = Finite (2 ^ 53) \<and> fl64 (2 ^ 53 + 3) = Finite (2 ^ 53 + 4)"
  by code_simp

lemma ilog2_le:
  assumes "0 < x" "x \<le> 2 powi k" "0 \<le> k"
  shows "ilog2 x \<le> k"
proof -
  have "(2::rat) powi (ilog2 x) \<le> 2 powi k"
    using ilog2_lower[OF assms(1)] assms(2) by simp
  then show ?thesis
    by (rule power_int_le_imp_le_exp[rotated]) (use assms(3) in simp_all)
qed

lemma ilog2_zero: "ilog2 0 = - 2"
  by code_simp

lemma round_even_cases: "round_even z = \<lfloor>z\<rfloor> \<or> (round_even z = \<lfloor>z\<rfloor> + 1 \<and> of_int \<lfloor>z\<rfloor> < z)"
  by (auto simp: round_even_def Let_def)

lemma round_even_le:
  assumes "z \<le> of_int k"
  shows "round_even z \<le> k"
proof -
  have f: "\<lfloor>z\<rfloor> \<le> k" using assms by (simp add: floor_le_iff)
  from round_even_cases[of z] show ?thesis
  proof
    assume "round_even z = \<lfloor>z\<rfloor>"
    with f show ?thesis by simp
  next
    assume a: "round_even z = \<lfloor>z\<rfloor> + 1 \<and> of_int \<lfloor>z\<rfloor> < z"
    then have "(of_int \<lfloor>z\<rfloor> :: rat) < of_int k" using assms by simp
    then have "\<lfloor>z\<rfloor> < k" by (simp only: of_int_less_iff)
    with a show ?thesis by simp
  qed
qed

lemma round_even_ge:
  assumes "of_int k \<le> z"
  shows "k \<le> round_even z"
proof -
  have f: "k \<le> \<lfloor>z\<rfloor>" using assms by (simp add: le_floor_iff)
  from round_even_cases[of z] f show ?thesis by auto
qed

lemma round_even_of_int: "round_even (of_int k) = k"
  by (simp add: round_even_def)


lemma pow2_scale:
  assumes "e \<le> 52"
  shows "of_int (n * 2 ^ nat (52 - e)) * (2::rat) powi (e - 52) = of_int n"
proof -
  have "e - 52 = - int (nat (52 - e))" using assms by simp
  then have "(2::rat) powi (e - 52) = inverse (2 ^ nat (52 - e))"
    by (simp only: power_int_minus power_int_of_nat)
  then show ?thesis by simp
qed

lemma fl64_bounded:
  assumes x0: "0 \<le> x" and xn: "x \<le> of_int n" and n53: "n \<le> 2 ^ 53"
  shows "\<exists>y. fl64 x = Finite y \<and> 0 \<le> y \<and> y \<le> of_int n \<and> (x = of_int n \<longrightarrow> y = of_int n)"
proof (cases "x = 0")
  case True
  with xn show ?thesis by (simp add: fl64_def)
next
  case False
  with x0 have xpos: "0 < x" by simp
  define e where "e = max (ilog2 x) (- 1022)"
  define u where "u = (2::rat) powi (e - 52)"
  define m where "m = round_even (x / u)"
  define y where "y = of_int m * u"
  have upos: "0 < u" by (simp add: u_def)
  have "(of_int n :: rat) \<le> of_int (2 ^ 53)" using n53 by (simp only: of_int_le_iff)
  then have n53r: "(of_int n :: rat) \<le> 2 powi 53" by simp
  with xn have x53: "x \<le> 2 powi 53" by simp
  have il: "ilog2 x \<le> 53" by (rule ilog2_le[OF xpos x53]) simp
  then have e53: "e \<le> 53" by (simp add: e_def)
  obtain k :: int where k: "of_int k * u = of_int n"
  proof (cases "e \<le> 52")
    case True
    from pow2_scale[OF True, of n] show ?thesis
      by (intro that[of "n * 2 ^ nat (52 - e)"]) (simp add: u_def)
  next
    case False
    with e53 have e: "e = 53" by simp
    then have "ilog2 x = 53" by (simp add: e_def max_def split: if_splits)
    with ilog2_lower[OF xpos] have "2 powi 53 \<le> x" by simp
    with xn n53r have "(of_int n :: rat) = 2 ^ 53" by simp
    moreover have "u = 2" by (simp add: u_def e)
    ultimately show ?thesis by (intro that[of "2 ^ 52"]) simp
  qed
  have "x / u \<le> of_int k"
    using xn k upos by (simp add: pos_divide_le_eq)
  then have mk: "m \<le> k" unfolding m_def by (rule round_even_le)
  have "(of_int 0 :: rat) \<le> x / u" using x0 upos by simp
  then have m0: "0 \<le> m" unfolding m_def by (rule round_even_ge)
  have y0: "0 \<le> y" using m0 upos by (simp add: y_def)
  have "of_int m * u \<le> of_int k * u"
    using mk upos by (simp add: mult_le_cancel_right)
  then have yn: "y \<le> of_int n" by (simp add: y_def k)
  have nov: "\<not> 1024 \<le> ilog2 \<bar>y\<bar>"
  proof (cases "y = 0")
    case True
    then show ?thesis by (simp add: ilog2_zero)
  next
    case False
    with y0 have ypos: "0 < y" by simp
    have "y \<le> 2 powi 53" using yn n53r by simp
    from ilog2_le[OF ypos this] ypos show ?thesis by simp
  qed
  have fl: "fl64 x = Finite y"
    using False xpos nov
    by (simp add: fl64_def Let_def e_def[symmetric] u_def[symmetric] m_def[symmetric] y_def[symmetric]
        abs_of_pos)
  have "y = of_int n" if "x = of_int n"
  proof -
    from that k upos have "x / u = of_int k" by (simp add: field_simps)
    then have "m = k" by (simp add: m_def round_even_of_int)
    then show ?thesis by (simp add: y_def k)
  qed
  with fl y0 yn show ?thesis by blast
qed

lemma float64_of_int_exact:
  assumes "sint n = k" "0 \<le> k" "k \<le> 2 ^ 53"
  shows "float64_of_int n = Finite (of_int k)"
proof -
  from fl64_bounded[of "of_int k" k] assms(2,3)
  have "fl64 (of_int k) = Finite (of_int k)" by auto
  then show ?thesis unfolding float64_of_int_def assms(1) .
qed

lemma round_away_bounds:
  assumes "0 \<le> y" "y \<le> of_int n"
  shows "0 \<le> round_away y \<and> round_away y \<le> n"
proof -
  have "\<lfloor>y + 1 / 2\<rfloor> \<le> n" using assms by (simp add: floor_le_iff)
  moreover have "0 \<le> \<lfloor>y + 1 / 2\<rfloor>" using assms by (simp add: le_floor_iff)
  ultimately show ?thesis using assms by (simp add: round_away_def)
qed

lemma trunc_zero_of_int: "trunc_zero (of_int j) = j"
  by (simp add: trunc_zero_def flip: of_int_minus)

lemma sint_word_of_int_64:
  assumes "- (2 ^ 63) \<le> j" "j < 2 ^ 63"
  shows "sint (word_of_int j :: 64 word) = j"
proof -
  have "signed_take_bit 63 j = j"
    by (rule signed_take_bit_int_eq_self) (use assms in simp_all)
  then show ?thesis by (simp add: sint_sbintrunc')
qed

lemma aiLines_round:
  assumes "float_mul (float64_of_int n) (Finite r) = Finite p"
    and "- (2 ^ 63) \<le> round_away p" and "round_away p < 2 ^ 63"
  shows "sint (aiLines n (Finite r)) = round_away p"
  using assms by (simp add: aiLines_def trunc_zero_of_int sint_word_of_int_64)

lemma aiLines_bounded:
  assumes r: "0 \<le> r" "r \<le> 1" and n: "0 \<le> sint n" "sint n \<le> 2 ^ 53"
  shows "0 \<le> sint (aiLines n (Finite r)) \<and> sint (aiLines n (Finite r)) \<le> sint n"
proof -
  define k where "k = sint n"
  have k: "0 \<le> k" "k \<le> 2 ^ 53" using n by (simp_all add: k_def)
  have f: "float64_of_int n = Finite (of_int k)"
    by (rule float64_of_int_exact[OF k_def[symmetric] k])
  have kr: "(0::rat) \<le> of_int k" using k(1) by simp
  have lo: "0 \<le> of_int k * r" using r(1) kr by (rule mult_nonneg_nonneg[rotated])
  have "of_int k * r \<le> of_int k * 1" using r(2) kr by (rule mult_left_mono)
  then have hi: "of_int k * r \<le> of_int k" by simp
  from fl64_bounded[OF lo hi k(2)]
  obtain y where y: "fl64 (of_int k * r) = Finite y" "0 \<le> y" "y \<le> of_int k"
    by blast
  from round_away_bounds[OF y(2,3)]
  have b: "0 \<le> round_away y" "round_away y \<le> k" by simp_all
  have m: "float_mul (float64_of_int n) (Finite r) = Finite y" by (simp add: f y)
  have "sint (aiLines n (Finite r)) = round_away y"
    by (rule aiLines_round[OF m]) (use b k in simp_all)
  with b show ?thesis by (simp add: k_def)
qed

lemma aiLines_zero: "aiLines 0 (Finite r) = 0"
proof -
  have "\<lfloor>(1::rat) / 2\<rfloor> = 0" by (simp add: floor_eq_iff)
  then show ?thesis
    by (simp add: aiLines_def float64_of_int_def fl64_def round_away_def trunc_zero_def)
qed

subsection \<open>The extension filter\<close>

text \<open>An extension has exactly one dot, its first byte, so no entry of the deny-list
  is ever equal to one: with the configured lists \<open>isValidFile\<close> is the allow-list test.\<close>

lemma ext_scan_one_dot:
  "CHR ''.'' \<notin> set acc \<Longrightarrow>
   ext_scan cs acc = [] \<or> (\<exists>r. ext_scan cs acc = CHR ''.'' # r \<and> CHR ''.'' \<notin> set r)"
  by (induction cs acc rule: ext_scan.induct) auto

lemma Ext_one_dot:
  "Ext path = [] \<or> (\<exists>r. Ext path = CHR ''.'' # r \<and> CHR ''.'' \<notin> set r)"
  unfolding Ext_def by (rule ext_scan_one_dot) simp

lemma deny_list_never_matches: "\<not> ext_in (Ext fileName) configured_excludeExts"
proof -
  have c: "configured_excludeExts = [''.pb.go'', ''.pb.validate.go'']" by code_simp
  from Ext_one_dot[of fileName] show ?thesis unfolding c by auto
qed

lemma isValidFile_is_allow_list:
  "isValidFile fileName configured_includeExts configured_excludeExts
     = ext_in (Ext fileName) configured_includeExts"
  by (simp add: isValidFile_def deny_list_never_matches)

text \<open>
  C2. The spec says that a path counts only if its extension is in the allow-list and
  not in the deny-list, and that \<open>foo.pb.go\<close> is excluded. \<open>isValidFile\<close> compares the
  deny-list with \<open>filepath.Ext\<close>, which is the suffix from the last dot: for
  \<open>foo.pb.go\<close> it is \<open>.go\<close>, never \<open>.pb.go\<close>. The code counts \<open>foo.pb.go\<close>; it
  excludes \<open>foo.md\<close> and counts \<open>foo.go\<close>, as the spec says.
\<close>

theorem isValidFile_pb_go_counted:
  "Ext ''foo.pb.go'' = ''.go''
   \<and> isValidFile ''foo.pb.go'' (Split CHR '','' includeFileExts) (Split CHR '','' excludeFileExts)
   \<and> \<not> isValidFile ''foo.md'' (Split CHR '','' includeFileExts) (Split CHR '','' excludeFileExts)
   \<and> isValidFile ''foo.go'' (Split CHR '','' includeFileExts) (Split CHR '','' excludeFileExts)"
  by code_simp

subsection \<open>The commit splitter\<close>

text \<open>
  C4, as stated: an input with no line whose first token is a 40-character hexadecimal
  string gives zero chunks. The input \<open>hello\<close> has no such line and gives one chunk.
\<close>

theorem splitCommits_no_marker_counterexample:
  "\<not> list_ex spec_marker_line (Split nl ''hello'') \<and> splitCommits ''hello'' = [''hello'']"
  by code_simp

text \<open>
  C4, amended: the empty input, and every input all of whose lines are empty, gives
  zero chunks; no chunk is ever empty; an input with a non-empty line and no line whose
  first field is 40 bytes long gives exactly one chunk, its non-empty lines joined by
  line feeds.
\<close>

theorem splitCommits_without_marker:
  "splitCommits [] = []
   \<and> ((\<forall>line\<in>set (Split nl output). line = []) \<longrightarrow> splitCommits output = [])
   \<and> [] \<notin> set (splitCommits output)
   \<and> ((\<forall>line\<in>set (Split nl output). \<not> code_marker_line line)
        \<and> (\<exists>line\<in>set (Split nl output). line \<noteq> [])
      \<longrightarrow> splitCommits output = [Join [nl] (filter (\<lambda>l. l \<noteq> []) (Split nl output))])"
proof (intro conjI impI)
  show "splitCommits [] = []" by (simp add: splitCommits_def)
  show "splitCommits output = []" if "\<forall>line\<in>set (Split nl output). line = []"
    using that by (simp add: splitCommits_def splitCommits_loop_blank)
  show "[] \<notin> set (splitCommits output)"
    using splitCommits_loop_nonempty[of "([], [])" "Split nl output"]
    by (auto simp: splitCommits_def Let_def)
  show "splitCommits output = [Join [nl] (filter (\<lambda>l. l \<noteq> []) (Split nl output))]"
    if ab: "(\<forall>line\<in>set (Split nl output). \<not> code_marker_line line)
        \<and> (\<exists>line\<in>set (Split nl output). line \<noteq> [])"
  proof -
    from ab have a: "\<forall>line\<in>set (Split nl output). \<not> code_marker_line line" by simp
    from ab have ne: "filter (\<lambda>l. l \<noteq> []) (Split nl output) \<noteq> []"
      by (simp add: filter_empty_conv)
    have "Join [nl] (filter (\<lambda>l. l \<noteq> []) (Split nl output)) \<noteq> []"
      by (rule Join_nonempty[OF ne]) simp
    then show ?thesis
      by (simp add: splitCommits_def splitCommits_loop_no_marker[OF a] Let_def)
  qed
qed

theorem splitCommits_without_marker_witness:
  "splitCommits [nl, nl] = [] \<and> splitCommits (''ab'' @ [nl, nl] @ ''cd'') = [''ab'' @ [nl] @ ''cd'']"
proof -
  have blank: "\<forall>line\<in>set (Split nl [nl, nl]). line = []" by simp
  have nomark: "(\<forall>line\<in>set (Split nl (''ab'' @ [nl, nl] @ ''cd'')). \<not> code_marker_line line)
        \<and> (\<exists>line\<in>set (Split nl (''ab'' @ [nl, nl] @ ''cd'')). line \<noteq> [])"
    by code_simp
  have j: "Join [nl] (filter (\<lambda>l. l \<noteq> []) (Split nl (''ab'' @ [nl, nl] @ ''cd''))) = ''ab'' @ [nl] @ ''cd''"
    by code_simp
  from splitCommits_without_marker[of "[nl, nl]"] blank
  have 1: "splitCommits [nl, nl] = []" by blast
  from splitCommits_without_marker[of "''ab'' @ [nl, nl] @ ''cd''"] nomark
  have "splitCommits (''ab'' @ [nl, nl] @ ''cd'')
          = [Join [nl] (filter (\<lambda>l. l \<noteq> []) (Split nl (''ab'' @ [nl, nl] @ ''cd'')))]"
    by blast
  with 1 j show ?thesis by simp
qed

subsection \<open>The file change line test\<close>

text \<open>
  C6, as stated: a line qualifies only if each of its first two fields is \<open>-\<close> or
  parses as a non-negative integer. The line \<open>-5<tab>3<tab>a.go\<close> qualifies, and its
  first field \<open>-5\<close> is neither.
\<close>

theorem isFileChangeLine_negative_counterexample:
  "isFileChangeLine (''-5'' @ [tab] @ ''3'' @ [tab] @ ''a.go'')
   \<and> \<not> spec_change_field (hd (Fields (''-5'' @ [tab] @ ''3'' @ [tab] @ ''a.go'')))"
  by code_simp

text \<open>
  C6, amended: a line qualifies exactly when it has at least two fields and each of the
  first two is \<open>-\<close> or is what \<open>strconv.Atoi\<close> accepts: an optional sign \<open>+\<close> or \<open>-\<close>
  followed by one or more decimal digits, with a value in the range of a 64-bit
  \<open>int\<close>. Negative numbers qualify.
\<close>

theorem isFileChangeLine_iff:
  "isFileChangeLine line \<longleftrightarrow>
     (2 \<le> length (Fields line)
      \<and> (Fields line ! 0 = ''-'' \<or> int_literal (Fields line ! 0))
      \<and> (Fields line ! 1 = ''-'' \<or> int_literal (Fields line ! 1)))"
proof (cases "2 \<le> length (Fields line)")
  case True
  then show ?thesis
    unfolding isFileChangeLine_def Let_def
    by (simp only: take_two fields_numeric_two Atoi_ok_iff) auto
next
  case False
  then show ?thesis by (simp add: isFileChangeLine_def Let_def)
qed

theorem isFileChangeLine_iff_witness:
  "isFileChangeLine (''10'' @ [tab] @ ''-'' @ [tab] @ ''main.go'')
   \<and> \<not> isFileChangeLine ''fix the parser''"
proof -
  have a: "2 \<le> length (Fields (''10'' @ [tab] @ ''-'' @ [tab] @ ''main.go''))
      \<and> (Fields (''10'' @ [tab] @ ''-'' @ [tab] @ ''main.go'') ! 0 = ''-''
           \<or> int_literal (Fields (''10'' @ [tab] @ ''-'' @ [tab] @ ''main.go'') ! 0))
      \<and> (Fields (''10'' @ [tab] @ ''-'' @ [tab] @ ''main.go'') ! 1 = ''-''
           \<or> int_literal (Fields (''10'' @ [tab] @ ''-'' @ [tab] @ ''main.go'') ! 1))"
    by code_simp
  have b: "\<not> (Fields ''fix the parser'' ! 0 = ''-'' \<or> int_literal (Fields ''fix the parser'' ! 0))"
    by code_simp
  from a b isFileChangeLine_iff[of "''10'' @ [tab] @ ''-'' @ [tab] @ ''main.go''"]
    isFileChangeLine_iff[of "''fix the parser''"]
  show ?thesis by blast
qed

subsection \<open>The end-to-end scenario\<close>

text \<open>
  C1, as stated: the scenario chunk, whose message head is \<open>Fix bug AIG: 0.5\<close>, is a
  fix commit. \<open>fixPattern\<close> ends in the lower-case literal \<open>fix\<close> and the match is
  case-sensitive, so \<open>processCommit\<close> returns \<open>IsFix = false\<close> for it.
\<close>

theorem scenario_not_fix_counterexample:
  "\<not> IsFix (fst (processCommit scenario_chunk aigRegex fixRegex
                    configured_includeExts configured_excludeExts))"
  by code_simp

text \<open>
  C1, amended: for the scenario chunk \<open>processCommit\<close> gives 10 added lines, 2 deleted
  lines, the ratio 0.5 and \<open>IsFix = false\<close>, the author \<open>Alice\<close> and, as the email, the
  third field \<open>2024-01-01\<close>; folded into the empty map this gives Alice's bucket the
  totals 10, 2, 5, 1 and no fix commit. With the message head \<open>fix bug AIG: 0.5\<close> the
  commit is a fix commit and both fix counters are 1.
\<close>

theorem scenario_totals:
  "processCommit scenario_chunk aigRegex fixRegex configured_includeExts configured_excludeExts =
     (\<lparr>AddedLines = 10, DeletedLines = 2, AIGRatio = Finite (1 / 2), IsFix = False\<rparr>,
      ''Alice'', ''2024-01-01'')
   \<and> analyzeCommits [scenario_chunk] ''2024-01-01'' =
       Some \<lparr>Name = ''Alice'', Email = ''2024-01-01'', TotalAddedLines = 10,
             TotalDeletedLines = 2, TotalAIAddedLines = 5, TotalAIDeletedLines = 1,
             FixCount = 0, FixAndAIGCount = 0\<rparr>
   \<and> processCommit scenario_chunk_lower aigRegex fixRegex
        configured_includeExts configured_excludeExts =
     (\<lparr>AddedLines = 10, DeletedLines = 2, AIGRatio = Finite (1 / 2), IsFix = True\<rparr>,
      ''Alice'', ''2024-01-01'')
   \<and> analyzeCommits [scenario_chunk_lower] ''2024-01-01'' =
       Some \<lparr>Name = ''Alice'', Email = ''2024-01-01'', TotalAddedLines = 10,
             TotalDeletedLines = 2, TotalAIAddedLines = 5, TotalAIDeletedLines = 1,
             FixCount = 1, FixAndAIGCount = 1\<rparr>"
  by code_simp

subsection \<open>The fix flag\<close>

text \<open>
  C3. The spec says that the fix flag is found in both identity line shapes. Both files
  test the first line with the same \<open>fixPattern\<close>, which has the time right after
  the quoted name. In part\_000 a line without email and with the message head
  \<open>fix bug\<close> is a fix commit. In main.go, whose log format puts the email between the
  name and the time, the same commit is not.
\<close>

theorem email_shape_never_fix:
  "\<not> IsFix (fst (processCommit email_chunk aigRegex fixRegex
                    configured_includeExts configured_excludeExts))
   \<and> IsFix (processCommit_p0 scenario_chunk_lower aigRegex fixRegex
              configured_includeExts configured_excludeExts)"
  by code_simp

subsection \<open>Malformed chunks\<close>

text \<open>
  C8. The spec says that a chunk whose first line is no identity line adds nothing to
  the map. \<open>processCommit\<close> returns the zero statistics and two empty strings for a
  first line of fewer than five fields, and \<open>analyzeCommits\<close> folds them in like any
  result: the map gets a bucket for the empty email.
\<close>

theorem malformed_chunk_adds_bucket:
  "analyzeCommits [] [] = None
   \<and> analyzeCommits [''not a commit''] [] =
       Some \<lparr>Name = [], Email = [], TotalAddedLines = 0, TotalDeletedLines = 0,
             TotalAIAddedLines = 0, TotalAIDeletedLines = 0, FixCount = 0,
             FixAndAIGCount = 0\<rparr>"
  by code_simp

subsection \<open>The two files agree on the core functions\<close>

lemma splitCommits_loop_p0_eq: "splitCommits_loop_p0 ls st = splitCommits_loop ls st"
  by (induction ls st rule: splitCommits_loop.induct) (simp_all add: Let_def)

lemma fields_numeric_p0_eq: "fields_numeric_p0 fs = fields_numeric fs"
  by (induction fs) simp_all

lemma ext_in_p0_eq: "ext_in_p0 e es = ext_in e es"
  by (induction es) simp_all

text \<open>
  C9. \<open>splitCommits\<close>, \<open>isFileChangeLine\<close>, \<open>parseFileChange\<close>, \<open>isValidFile\<close> and
  \<open>extractAIGRatio\<close> of main.go return, on every input, what the functions of the same
  names in part\_000 return.
\<close>

theorem core_functions_agree:
  "splitCommits_p0 output = splitCommits output
   \<and> isFileChangeLine_p0 line = isFileChangeLine line
   \<and> parseFileChange_p0 change = parseFileChange change
   \<and> isValidFile_p0 fileName inc exc = isValidFile fileName inc exc
   \<and> extractAIGRatio_p0 re commit = extractAIGRatio re commit"
  by (simp add: splitCommits_p0_def splitCommits_def splitCommits_loop_p0_eq
      isFileChangeLine_p0_def isFileChangeLine_def fields_numeric_p0_eq
      parseFileChange_p0_def parseFileChange_def
      isValidFile_p0_def isValidFile_def ext_in_p0_eq
      extractAIGRatio_p0_def extractAIGRatio_def)

subsection \<open>The default date range\<close>

lemma Format_nonempty: "Format t \<noteq> []"
  by (simp add: Format_def)

text \<open>
  C10. \<open>getDefaultDateRange\<close> returns \<open>since\<close> and \<open>until\<close> as they are when both are
  non-empty. When one of them is empty the result is the computed window, the same as
  for two empty arguments, and so it is never the pair that was supplied.
\<close>

theorem getDefaultDateRange_both_or_window:
  "(since \<noteq> [] \<and> until \<noteq> [] \<longrightarrow> getDefaultDateRange now since until = (since, until))
   \<and> (since = [] \<or> until = [] \<longrightarrow>
        getDefaultDateRange now since until = getDefaultDateRange now [] []
        \<and> getDefaultDateRange now since until \<noteq> (since, until))"
  by (auto simp: getDefaultDateRange_def Let_def Format_nonempty dest: sym)

theorem getDefaultDateRange_both_or_window_witness:
  "getDefaultDateRange \<lparr>year = 2024, month = 3, day = 10\<rparr> ''2024-01-01'' ''2024-01-31''
     = (''2024-01-01'', ''2024-01-31'')
   \<and> getDefaultDateRange \<lparr>year = 2024, month = 3, day = 10\<rparr> ''2024-01-01'' []
     = (''2024-02-16'', ''2024-02-29'')
   \<and> getDefaultDateRange \<lparr>year = 2024, month = 3, day = 10\<rparr> [] ''2024-01-31''
     = (''2024-02-16'', ''2024-02-29'')"
proof -
  have d: "getDefaultDateRange \<lparr>year = 2024, month = 3, day = 10\<rparr> [] []
             = (''2024-02-16'', ''2024-02-29'')"
    by code_simp
  from getDefaultDateRange_both_or_window
         [of "''2024-01-01''" "''2024-01-31''" "\<lparr>year = 2024, month = 3, day = 10\<rparr>"]
    getDefaultDateRange_both_or_window
         [of "''2024-01-01''" "[]" "\<lparr>year = 2024, month = 3, day = 10\<rparr>"]
    getDefaultDateRange_both_or_window
         [of "[]" "''2024-01-31''" "\<lparr>year = 2024, month = 3, day = 10\<rparr>"] d
  show ?thesis by simp
qed

subsection \<open>The ratio extractor\<close>

lemma aigRegex_length: "aigRegex msg \<noteq> [] \<Longrightarrow> length (aigRegex msg) = 3"
  by (auto simp: aigRegex_def split: option.splits)

lemma float_less_one_not_negative: "float_less (Finite 1) r \<Longrightarrow> \<not> float_less r (Finite 0)"
  by (cases r) auto

text \<open>
  C5. The ratio is 0 when the message has no AIG tag, when the tagged value does not
  parse, and when the parsed value is negative; a parsed value above 1 is returned as
  it is. The tag pattern admits digits and points only, so a tag written \<open>AIG: -0.3\<close>
  is no tag at all, and the message gives the ratio 0.
\<close>

theorem extractAIGRatio_cases:
  "(aigRegex msg = [] \<longrightarrow> extractAIGRatio aigRegex msg = Finite 0)
   \<and> (aigRegex msg \<noteq> [] \<and> ParseFloat (aigRegex msg ! 2) = Inl e
        \<longrightarrow> extractAIGRatio aigRegex msg = Finite 0)
   \<and> (2 < length (re msg) \<and> ParseFloat (re msg ! 2) = Inr r \<and> float_less r (Finite 0)
        \<longrightarrow> extractAIGRatio re msg = Finite 0)
   \<and> (aigRegex msg \<noteq> [] \<and> ParseFloat (aigRegex msg ! 2) = Inr r \<and> float_less (Finite 1) r
        \<longrightarrow> extractAIGRatio aigRegex msg = r)
   \<and> extractAIGRatio aigRegex ''AIG: -0.3'' = Finite 0"
proof (intro conjI impI)
  show "extractAIGRatio aigRegex msg = Finite 0" if "aigRegex msg = []"
    using that by (simp add: extractAIGRatio_def)
  show "extractAIGRatio aigRegex msg = Finite 0"
    if "aigRegex msg \<noteq> [] \<and> ParseFloat (aigRegex msg ! 2) = Inl e"
    using that by (simp add: extractAIGRatio_def Let_def)
  show "extractAIGRatio re msg = Finite 0"
    if "2 < length (re msg) \<and> ParseFloat (re msg ! 2) = Inr r \<and> float_less r (Finite 0)"
    using that by (simp add: extractAIGRatio_def Let_def)
  show "extractAIGRatio aigRegex msg = r"
    if "aigRegex msg \<noteq> [] \<and> ParseFloat (aigRegex msg ! 2) = Inr r \<and> float_less (Finite 1) r"
    using that aigRegex_length[of msg] float_less_one_not_negative[of r]
    by (simp add: extractAIGRatio_def Let_def)
  show "extractAIGRatio aigRegex ''AIG: -0.3'' = Finite 0"
    by code_simp
qed

theorem extractAIGRatio_cases_witness:
  "extractAIGRatio aigRegex ''no tag here'' = Finite 0
   \<and> extractAIGRatio aigRegex ''AIG: 1.2.3'' = Finite 0
   \<and> extractAIGRatio (\<lambda>s. [s, s, s]) ''-0.5'' = Finite 0
   \<and> extractAIGRatio aigRegex ''AIG: 2.5'' = Finite (5 / 2)"
proof -
  have a: "aigRegex ''no tag here'' = []" by code_simp
  have b: "aigRegex ''AIG: 1.2.3'' \<noteq> [] \<and> ParseFloat (aigRegex ''AIG: 1.2.3'' ! 2) = Inl ErrSyntax"
    by code_simp
  have c: "2 < length ((\<lambda>s. [s, s, s]) ''-0.5'') \<and> ParseFloat ((\<lambda>s. [s, s, s]) ''-0.5'' ! 2) = Inr (Finite (- (1 / 2)))
      \<and> float_less (Finite (- (1 / 2))) (Finite 0)"
    by code_simp
  have d: "aigRegex ''AIG: 2.5'' \<noteq> [] \<and> ParseFloat (aigRegex ''AIG: 2.5'' ! 2) = Inr (Finite (5 / 2))
      \<and> float_less (Finite 1) (Finite (5 / 2))"
    by code_simp
  from extractAIGRatio_cases[where msg = "''no tag here''"] a
  have 1: "extractAIGRatio aigRegex ''no tag here'' = Finite 0" by blast
  from extractAIGRatio_cases[where msg = "''AIG: 1.2.3''" and e = ErrSyntax] b
  have 2: "extractAIGRatio aigRegex ''AIG: 1.2.3'' = Finite 0" by blast
  from extractAIGRatio_cases[where re = "\<lambda>s. [s, s, s]" and msg = "''-0.5''" and r = "Finite (- (1 / 2))"] c
  have 3: "extractAIGRatio (\<lambda>s. [s, s, s]) ''-0.5'' = Finite 0" by blast
  from extractAIGRatio_cases[where msg = "''AIG: 2.5''" and r = "Finite (5 / 2)"] d
  have 4: "extractAIGRatio aigRegex ''AIG: 2.5'' = Finite (5 / 2)" by blast
  from 1 2 3 4 show ?thesis by blast
qed

subsection \<open>The AI share of the line counts\<close>

lemma ParseFloat_shape:
  "ParseFloat s = Inl ErrSyntax
   \<or> (\<exists>z. ParseFloat s = (case fl64 z of Finite q \<Rightarrow> Inr (Finite q) | _ \<Rightarrow> Inl ErrRange))"
  unfolding ParseFloat_def Let_def by (rule if_split[THEN iffD2]) blast

lemma ParseFloat_finite: "ParseFloat s = Inr x \<Longrightarrow> \<exists>q. x = Finite q"
proof -
  assume a: "ParseFloat s = Inr x"
  with ParseFloat_shape[of s] obtain z where
    z: "Inr x = (case fl64 z of Finite q \<Rightarrow> Inr (Finite q) | _ \<Rightarrow> Inl ErrRange)"
    by auto
  then show ?thesis by (cases "fl64 z") auto
qed

lemma extractAIGRatio_finite: "\<exists>q. extractAIGRatio re msg = Finite q \<and> 0 \<le> q"
proof (cases "2 < length (re msg)")
  case False
  then show ?thesis by (simp add: extractAIGRatio_def Let_def)
next
  case True
  show ?thesis
  proof (cases "ParseFloat (re msg ! 2)")
    case (Inl e)
    with True show ?thesis by (simp add: extractAIGRatio_def Let_def)
  next
    case (Inr x)
    from ParseFloat_finite[OF Inr] obtain q where "x = Finite q" ..
    with True Inr show ?thesis by (simp add: extractAIGRatio_def Let_def)
  qed
qed

lemma add_changes_ratio: "AIGRatio (add_changes cs inc exc st) = AIGRatio st"
  by (induction cs inc exc st rule: add_changes.induct) (auto split: prod.splits)

lemma processCommit_ratio:
  "\<exists>q. AIGRatio (fst (processCommit commit aigRe fixRe inc exc)) = Finite q \<and> 0 \<le> q"
proof -
  have z: "\<exists>q. AIGRatio CommitStats_zero = Finite q \<and> 0 \<le> q"
    by (simp add: CommitStats_zero_def)
  show ?thesis
    unfolding processCommit_def Let_def
    using z extractAIGRatio_finite by (simp add: add_changes_ratio)
qed

lemma round_away_half: "round_away (of_int j + 1 / 2) = (if 0 \<le> j then j + 1 else j)"
proof (cases "0 \<le> j")
  case True
  then have "(0::rat) \<le> of_int j" by simp
  then have "\<not> (of_int j + 1 / 2 :: rat) < 0" by simp
  moreover have "\<lfloor>(of_int j :: rat) + 1 / 2 + 1 / 2\<rfloor> = j + 1"
    by (simp add: floor_eq_iff)
  ultimately show ?thesis using True by (simp add: round_away_def)
next
  case False
  then have "j \<le> - 1" by simp
  then have "(of_int j :: rat) \<le> of_int (- 1)" by (simp only: of_int_le_iff)
  then have neg: "(of_int j + 1 / 2 :: rat) < 0" by simp
  have "\<lfloor>- (of_int j + 1 / 2 :: rat) + 1 / 2\<rfloor> = - j"
    by (simp add: floor_eq_iff)
  with neg False show ?thesis by (simp add: round_away_def)
qed

lemma updateAuthorStats_ai:
  "\<exists>st'. updateAuthorStats m author email cs email = Some st'
     \<and> TotalAIAddedLines st' =
         (case m email of None \<Rightarrow> 0 | Some st \<Rightarrow> TotalAIAddedLines st)
           + aiLines (AddedLines cs) (AIGRatio cs)
     \<and> TotalAIDeletedLines st' =
         (case m email of None \<Rightarrow> 0 | Some st \<Rightarrow> TotalAIDeletedLines st)
           + aiLines (DeletedLines cs) (AIGRatio cs)"
  by (cases "m email") (simp_all add: updateAuthorStats_def Let_def)

text \<open>
  C7, as stated: for every commit with a ratio of at most 1 the AI share of the added
  lines is at most the added lines. \<open>Atoi\<close> reads signed numbers, so a file change
  line can carry a negative count: the chunk below has \<open>-5\<close> added lines and the ratio
  0.5, and its AI share is \<open>-3\<close> (\<open>-2.5\<close> rounded away from zero), which is more
  than \<open>-5\<close>.
\<close>

theorem ai_share_negative_counterexample:
  "AddedLines (fst (processCommit negative_chunk aigRegex fixRegex
       configured_includeExts configured_excludeExts)) = - 5
   \<and> AIGRatio (fst (processCommit negative_chunk aigRegex fixRegex
       configured_includeExts configured_excludeExts)) = Finite (1 / 2)
   \<and> sint (aiLines (- 5) (Finite (1 / 2))) = - 3
   \<and> \<not> sint (aiLines (- 5) (Finite (1 / 2))) \<le> sint (- 5 :: go_int)"
proof -
  have a: "AddedLines (fst (processCommit negative_chunk aigRegex fixRegex
       configured_includeExts configured_excludeExts)) = - 5
     \<and> AIGRatio (fst (processCommit negative_chunk aigRegex fixRegex
       configured_includeExts configured_excludeExts)) = Finite (1 / 2)"
    by code_simp
  have b: "aiLines (- 5) (Finite (1 / 2)) = - 3" by code_simp
  show ?thesis unfolding b using a by simp
qed

text \<open>Above \<open>2 ^ 53\<close> the conversion to \<open>float64\<close> can round a line count up, and the AI
  share at the ratio 1 with it.\<close>

lemma ai_share_above_two_53:
  "sint (aiLines 9007199254740995 (Finite 1)) = 9007199254740996"
proof -
  have "aiLines 9007199254740995 (Finite 1) = 9007199254740996" by code_simp
  then show ?thesis by simp
qed

text \<open>
  C7, amended. Every ratio \<open>processCommit\<close> computes is finite and not negative.
  \<open>updateAuthorStats\<close> adds to the two AI totals of the bucket
  \<open>int(math.Round(float64(n) * ratio))\<close> for the added and for the deleted lines; when
  the float product is \<open>p\<close> and its rounding fits an \<open>int\<close>, that is \<open>p\<close> rounded to
  the nearest integer, halfway cases away from zero. For a ratio between 0 and 1 and a
  line count between 0 and \<open>2 ^ 53\<close> the AI count is between 0 and the line count, and
  for the line count 0 it is 0 for every finite ratio.
\<close>

theorem ai_share_rounding_and_bound:
  "(\<exists>q. AIGRatio (fst (processCommit commit aigRe fixRe inc exc)) = Finite q \<and> 0 \<le> q)
   \<and> (\<exists>st'. updateAuthorStats m author email cs email = Some st'
         \<and> TotalAIAddedLines st' =
             (case m email of None \<Rightarrow> 0 | Some st \<Rightarrow> TotalAIAddedLines st)
               + aiLines (AddedLines cs) (AIGRatio cs)
         \<and> TotalAIDeletedLines st' =
             (case m email of None \<Rightarrow> 0 | Some st \<Rightarrow> TotalAIDeletedLines st)
               + aiLines (DeletedLines cs) (AIGRatio cs))
   \<and> (float_mul (float64_of_int n) (Finite r) = Finite p
        \<and> - (2 ^ 63) \<le> round_away p \<and> round_away p < 2 ^ 63
      \<longrightarrow> sint (aiLines n (Finite r)) = round_away p)
   \<and> round_away (of_int j + 1 / 2) = (if 0 \<le> j then j + 1 else j)
   \<and> (0 \<le> r \<and> r \<le> 1 \<and> 0 \<le> sint n \<and> sint n \<le> 2 ^ 53
      \<longrightarrow> 0 \<le> sint (aiLines n (Finite r)) \<and> sint (aiLines n (Finite r)) \<le> sint n)
   \<and> aiLines 0 (Finite r) = 0"
proof (intro conjI impI)
  show "\<exists>q. AIGRatio (fst (processCommit commit aigRe fixRe inc exc)) = Finite q \<and> 0 \<le> q"
    by (rule processCommit_ratio)
  show "\<exists>st'. updateAuthorStats m author email cs email = Some st'
         \<and> TotalAIAddedLines st' =
             (case m email of None \<Rightarrow> 0 | Some st \<Rightarrow> TotalAIAddedLines st)
               + aiLines (AddedLines cs) (AIGRatio cs)
         \<and> TotalAIDeletedLines st' =
             (case m email of None \<Rightarrow> 0 | Some st \<Rightarrow> TotalAIDeletedLines st)
               + aiLines (DeletedLines cs) (AIGRatio cs)"
    by (rule updateAuthorStats_ai)
  show "sint (aiLines n (Finite r)) = round_away p"
    if "float_mul (float64_of_int n) (Finite r) = Finite p
        \<and> - (2 ^ 63) \<le> round_away p \<and> round_away p < 2 ^ 63"
    using that aiLines_round[of n r p] by blast
  show "round_away (of_int j + 1 / 2) = (if 0 \<le> j then j + 1 else j)"
    by (rule round_away_half)
  show "0 \<le> sint (aiLines n (Finite r))"
    if "0 \<le> r \<and> r \<le> 1 \<and> 0 \<le> sint n \<and> sint n \<le> 2 ^ 53"
    using that aiLines_bounded[of r n] by blast
  show "sint (aiLines n (Finite r)) \<le> sint n"
    if "0 \<le> r \<and> r \<le> 1 \<and> 0 \<le> sint n \<and> sint n \<le> 2 ^ 53"
    using that aiLines_bounded[of r n] by blast
  show "aiLines 0 (Finite r) = 0" by (rule aiLines_zero)
qed

theorem ai_share_rounding_and_bound_witness:
  "sint (aiLines 3 (Finite (1 / 2))) = 2
   \<and> 0 \<le> sint (aiLines 10 (Finite (1 / 2)))
   \<and> sint (aiLines 10 (Finite (1 / 2))) \<le> 10"
proof -
  have p: "float_mul (float64_of_int 3) (Finite (1 / 2)) = Finite (3 / 2)
      \<and> - (2 ^ 63) \<le> round_away (3 / 2) \<and> round_away (3 / 2) < 2 ^ 63"
    by code_simp
  have ra: "round_away (3 / 2) = 2" by code_simp
  have s: "sint (10 :: go_int) = 10" by simp
  have h: "(0::rat) \<le> 1 / 2 \<and> (1 / 2 :: rat) \<le> 1 \<and> 0 \<le> sint (10 :: go_int)
      \<and> sint (10 :: go_int) \<le> 2 ^ 53"
    by simp
  from ai_share_rounding_and_bound[where n = 3 and r = "1 / 2" and p = "3 / 2"] p ra
  have 1: "sint (aiLines 3 (Finite (1 / 2))) = 2" by simp
  from ai_share_rounding_and_bound[where n = 10 and r = "1 / 2"] h
  have 2: "0 \<le> sint (aiLines 10 (Finite (1 / 2))) \<and> sint (aiLines 10 (Finite (1 / 2))) \<le> sint (10 :: go_int)"
    by blast
  from 1 2 s show ?thesis by simp
qed

end
